theory Spec2Isabelle
  imports Complex_Main
begin

section \<open>JavaScript values used by the server\<close>

text \<open>
  A JavaScript string is a sequence of UTF-16 code units; a code unit is modelled by its
  numeric value. \<open>js\<close> turns an ASCII literal into such a sequence.
\<close>

type_synonym jsstring = "nat list"

definition js :: "string \<Rightarrow> jsstring" where
  "js s = map of_char s"

text \<open>
  \<open>String.prototype.trim\<close> removes the WhiteSpace and LineTerminator code points from both
  ends: TAB, LF, VT, FF, CR, SP, NBSP, U+1680, U+2000..U+200A, U+2028, U+2029, U+202F,
  U+205F, U+3000 and U+FEFF.
\<close>

definition isWhiteSpace :: "nat \<Rightarrow> bool" where
  "isWhiteSpace c \<longleftrightarrow>
     (9 \<le> c \<and> c \<le> 13) \<or> c = 32 \<or> c = 160 \<or> c = 5760 \<or> (8192 \<le> c \<and> c \<le> 8202) \<or>
     c = 8232 \<or> c = 8233 \<or> c = 8239 \<or> c = 8287 \<or> c = 12288 \<or> c = 65279"

definition trimStart :: "jsstring \<Rightarrow> jsstring" where
  "trimStart s = dropWhile isWhiteSpace s"

definition trimEnd :: "jsstring \<Rightarrow> jsstring" where
  "trimEnd s = rev (dropWhile isWhiteSpace (rev s))"

definition trim :: "jsstring \<Rightarrow> jsstring" where
  "trim s = trimStart (trimEnd s)"

text \<open>
  A cell of a spreadsheet row as the Sheets API delivers it with
  \<open>valueRenderOption: "UNFORMATTED_VALUE"\<close>: a string, a number or a boolean; \<open>Undefined\<close>
  is what array destructuring yields for a column the row does not have. A number is
  modelled by its exact mathematical value; the IEEE double of the source is that value
  rounded to the nearest double, which keeps the sign and keeps every value the theorems
  below name (0, 5.5, -5, and 1.234 as the literal \<open>1.234\<close> denotes it).
\<close>

datatype cell = Undefined | Null | Str jsstring | Num rat | Bool bool

text \<open>
  \<open>String(v)\<close> on a value that is neither null, undefined nor a string. The decimal
  rendering of a number is the built-in Number::toString; it is taken as the parameter
  \<open>numToString\<close>.
\<close>

fun String_of :: "(rat \<Rightarrow> jsstring) \<Rightarrow> cell \<Rightarrow> jsstring" where
  "String_of numToString Undefined = js ''undefined''"
| "String_of numToString Null = js ''null''"
| "String_of numToString (Str s) = s"
| "String_of numToString (Num q) = numToString q"
| "String_of numToString (Bool b) = (if b then js ''true'' else js ''false'')"

section \<open>The spreadsheet reader: rows to product records\<close>

text \<open>The helper \<open>toStr\<close> of \<open>fetchProductsFromSheet\<close>.\<close>

fun toStr :: "(rat \<Rightarrow> jsstring) \<Rightarrow> cell \<Rightarrow> jsstring" where
  "toStr numToString Null = []"
| "toStr numToString Undefined = []"
| "toStr numToString (Str s) = s"
| "toStr numToString v = String_of numToString v"

subsection \<open>Price normalisation\<close>

text \<open>
  \<open>.replace(/[^\d.,\-]/g, "")\<close>: every code unit that is not an ASCII digit, a period, a
  comma or a minus sign is removed. (\<open>\d\<close> without the unicode flag is \<open>[0-9]\<close>.)
\<close>

definition isDigit :: "nat \<Rightarrow> bool" where
  "isDigit c \<longleftrightarrow> 48 \<le> c \<and> c \<le> 57"

definition isPriceChar :: "nat \<Rightarrow> bool" where
  "isPriceChar c \<longleftrightarrow> isDigit c \<or> c = 46 \<or> c = 44 \<or> c = 45"

definition stripNonPrice :: "jsstring \<Rightarrow> jsstring" where
  "stripNonPrice s = filter isPriceChar s"

text \<open>
  \<open>.replace(",", ".")\<close> with a string pattern replaces the first occurrence only.
\<close>

fun replaceFirstComma :: "jsstring \<Rightarrow> jsstring" where
  "replaceFirstComma [] = []"
| "replaceFirstComma (c # cs) = (if c = 44 then 46 # cs else c # replaceFirstComma cs)"

definition cleaned :: "jsstring \<Rightarrow> jsstring" where
  "cleaned s = replaceFirstComma (stripNonPrice (trim s))"

text \<open>
  \<open>parseFloat\<close> returns the value of the longest prefix of its argument that is a
  StrDecimalLiteral, and NaN (here \<open>None\<close>) when there is none. The source applies it to
  cleaned strings only, which consist of digits, periods, commas and minus signs, so the
  alternatives of the grammar that need a letter, a plus sign or leading white space
  (\<open>Infinity\<close>, an exponent part) cannot occur; on such strings a StrDecimalLiteral is an
  optional minus sign followed by digits with an optional fraction, or by a period and
  digits.
\<close>

definition digitsValue :: "jsstring \<Rightarrow> nat" where
  "digitsValue ds = foldl (\<lambda>acc c. acc * 10 + (c - 48)) 0 ds"

definition fractionDigits :: "jsstring \<Rightarrow> jsstring" where
  "fractionDigits r =
     (case r of [] \<Rightarrow> [] | c # cs \<Rightarrow> if c = 46 then takeWhile isDigit cs else [])"

definition unsignedValue :: "jsstring \<Rightarrow> rat option" where
  "unsignedValue r =
     (let ip = takeWhile isDigit r;
          fp = fractionDigits (dropWhile isDigit r)
      in if ip = [] \<and> fp = [] then None
         else Some (of_nat (digitsValue ip) + of_nat (digitsValue fp) / 10 ^ length fp))"

definition parseFloat :: "jsstring \<Rightarrow> rat option" where
  "parseFloat s =
     (case s of
        [] \<Rightarrow> None
      | c # cs \<Rightarrow> if c = 45 then map_option uminus (unsignedValue cs) else unsignedValue s)"

text \<open>\<open>parseFloat(cleaned) || 0\<close>: NaN and (minus) zero are falsy.\<close>

definition orZero :: "rat option \<Rightarrow> rat" where
  "orZero v = (case v of None \<Rightarrow> 0 | Some q \<Rightarrow> if q = 0 then 0 else q)"

text \<open>
  \<open>parseFloat(x.trim().replace(/[^\d.,\-]/g, "").replace(",", ".")) || 0\<close>, the expression
  that the string branch and the last branch of the price computation share.
\<close>

definition parsePrice :: "jsstring \<Rightarrow> rat" where
  "parsePrice s = orZero (parseFloat (cleaned s))"

text \<open>The three-way branch on \<open>priceRaw\<close>; \<open>price\<close> keeps its initial 0 otherwise.\<close>

fun priceOf :: "(rat \<Rightarrow> jsstring) \<Rightarrow> cell \<Rightarrow> rat" where
  "priceOf numToString (Num q) = q"
| "priceOf numToString (Str s) = parsePrice s"
| "priceOf numToString Null = 0"
| "priceOf numToString Undefined = 0"
| "priceOf numToString v = parsePrice (String_of numToString v)"

subsection \<open>Rows\<close>

record product =
  image_p :: jsstring
  name :: jsstring
  price :: rat
  description :: jsstring

text \<open>\<open>const [imageRaw, nameRaw, priceRaw, descRaw] = r\<close>: a missing column is undefined.\<close>

definition column :: "cell list \<Rightarrow> nat \<Rightarrow> cell" where
  "column r i = (if i < length r then r ! i else Undefined)"

definition rowToProduct :: "(rat \<Rightarrow> jsstring) \<Rightarrow> cell list \<Rightarrow> product" where
  "rowToProduct numToString r =
     \<lparr> image_p = trim (toStr numToString (column r 0)),
       name = trim (toStr numToString (column r 1)),
       price = priceOf numToString (column r 2),
       description = trim (toStr numToString (column r 3)) \<rparr>"

text \<open>\<open>.filter(p => p.name || p.image || p.description)\<close>: a string is truthy when not empty.\<close>

definition keepProduct :: "product \<Rightarrow> bool" where
  "keepProduct p \<longleftrightarrow> name p \<noteq> [] \<or> image_p p \<noteq> [] \<or> description p \<noteq> []"

definition rowsToProducts :: "(rat \<Rightarrow> jsstring) \<Rightarrow> cell list list \<Rightarrow> product list" where
  "rowsToProducts numToString rows = filter keepProduct (map (rowToProduct numToString) rows)"

text \<open>
  The price rule as the specification words it, without the source's \<open>trim\<close> and with
  every comma turned into a period: strip every character that is not a digit, comma,
  period or minus sign, replace comma with period, parse as float, unparsable gives 0.
\<close>

definition commaToPeriod :: "nat \<Rightarrow> nat" where
  "commaToPeriod c = (if c = 44 then 46 else c)"

definition spec_price :: "jsstring \<Rightarrow> rat" where
  "spec_price s =
     (case parseFloat (map commaToPeriod (filter isPriceChar s)) of None \<Rightarrow> 0 | Some v \<Rightarrow> v)"


definition rowAllEmpty :: "(rat \<Rightarrow> jsstring) \<Rightarrow> cell list \<Rightarrow> bool" where
  "rowAllEmpty numToString r \<longleftrightarrow>
     trim (toStr numToString (column r 0)) = [] \<and>
     trim (toStr numToString (column r 1)) = [] \<and>
     trim (toStr numToString (column r 3)) = []"

section \<open>The product cache\<close>

text \<open>
  What a request meets outside the process: the configuration read from the process
  environment, and the outcome each external call would have. \<open>keyJson\<close> is the outcome
  of decoding and parsing the configured key (\<open>JSON.parse\<close> of the base64-decoded text and
  reading its fields), \<open>authClient\<close> that of \<open>auth.getClient()\<close>, \<open>valuesGet\<close> that of
  \<open>sheets.spreadsheets.values.get\<close> (\<open>resp.data.values\<close>, which the API omits for an
  empty range). \<open>PRODUCTS_CACHE_TTL_MS\<close> is the configured window in milliseconds, 60000
  when the variable is not set; a setting that is not a number makes it NaN in the
  source, against which every comparison is false, and is not covered here.
\<close>

datatype error = Error string | SyntaxError | AuthError | RequestError

record serviceAccount =
  private_key :: "jsstring option"
  client_email :: "jsstring option"

record environment =
  SHEET_ID :: "jsstring option"
  GOOGLE_SA_KEY_BASE64 :: "jsstring option"
  PRODUCTS_CACHE_TTL_MS :: int
  keyJson :: "error + serviceAccount"
  authClient :: "error + unit"
  valuesGet :: "error + cell list list option"

text \<open>An environment variable is truthy when it is set and not empty.\<close>

definition truthy :: "jsstring option \<Rightarrow> bool" where
  "truthy v = (case v of None \<Rightarrow> False | Some s \<Rightarrow> s \<noteq> [])"

text \<open>\<open>.replace(/\\n/g, "\n")\<close>: a backslash followed by \<open>n\<close> becomes a line feed.\<close>

fun unescapeNewlines :: "jsstring \<Rightarrow> jsstring" where
  "unescapeNewlines (c # d # cs) =
     (if c = 92 \<and> d = 110 then 10 # unescapeNewlines cs else c # unescapeNewlines (d # cs))"
| "unescapeNewlines cs = cs"

definition getSheetsClient :: "environment \<Rightarrow> error + unit" where
  "getSheetsClient env =
     (if \<not> truthy (GOOGLE_SA_KEY_BASE64 env) then Inl (Error ''Missing GOOGLE_SA_KEY_BASE64'')
      else case keyJson env of
        Inl e \<Rightarrow> Inl e
      | Inr json \<Rightarrow>
          let key = unescapeNewlines (case private_key json of None \<Rightarrow> [] | Some k \<Rightarrow> k)
          in if key = [] then Inl (Error ''Service Account private_key is empty'')
             else authClient env)"

definition fetchProductsFromSheet :: "(rat \<Rightarrow> jsstring) \<Rightarrow> environment \<Rightarrow> error + product list" where
  "fetchProductsFromSheet numToString env =
     (if \<not> truthy (SHEET_ID env) then Inl (Error ''Missing SHEET_ID'')
      else case getSheetsClient env of
        Inl e \<Rightarrow> Inl e
      | Inr sheets \<Rightarrow>
          (case valuesGet env of
             Inl e \<Rightarrow> Inl e
           | Inr values \<Rightarrow>
               Inr (rowsToProducts numToString (case values of None \<Rightarrow> [] | Some rows \<Rightarrow> rows))))"

text \<open>
  \<open>productsCache = { data, ts }\<close>, with \<open>data: null\<close> as \<open>None\<close>. An array, also an empty
  one, is truthy. The state of the server also counts the calls of
  \<open>fetchProductsFromSheet\<close> and keeps what \<open>console.error\<close> received.
\<close>

record cache =
  data :: "product list option"
  ts :: int

record server =
  productsCache :: cache
  sheetCalls :: nat
  consoleErrors :: "error list"

definition initialServer :: server where
  "initialServer = \<lparr> productsCache = \<lparr> data = None, ts = 0 \<rparr>, sheetCalls = 0, consoleErrors = [] \<rparr>"

text \<open>
  One call of \<open>getProducts\<close> at time \<open>now = Date.now()\<close>, run on its own from start to
  end. The result is \<open>Inr\<close> of the returned array; \<open>Inl\<close> would be an error raised to the
  caller.
\<close>

definition getProducts ::
  "(rat \<Rightarrow> jsstring) \<Rightarrow> environment \<Rightarrow> int \<Rightarrow> server \<Rightarrow> (error + product list) \<times> server" where
  "getProducts numToString env now s =
     (let c = productsCache s in
      if data c \<noteq> None \<and> now - ts c < PRODUCTS_CACHE_TTL_MS env then (Inr (the (data c)), s)
      else
        (case fetchProductsFromSheet numToString env of
           Inr d \<Rightarrow>
             (Inr d, s\<lparr> productsCache := \<lparr> data = Some d, ts = now \<rparr>,
                        sheetCalls := Suc (sheetCalls s) \<rparr>)
         | Inl err \<Rightarrow>
             (Inr (case data c of None \<Rightarrow> [] | Some d \<Rightarrow> d),
              s\<lparr> sheetCalls := Suc (sheetCalls s), consoleErrors := consoleErrors s @ [err] \<rparr>)))"

section \<open>The image listing\<close>

text \<open>
  A directory entry as \<open>readdir\<close> with \<open>withFileTypes\<close> gives it, and what the handler
  meets on disk: whether \<open>fs.existsSync\<close> finds the folder, and the outcome of
  \<open>fs.promises.readdir\<close>.
\<close>

datatype dirent = Dirent (dname: jsstring) (isFile: bool)

record folder =
  existsSync :: bool
  readdir :: "error + dirent list"

text \<open>
  \<open>/\.(jpg|jpeg|png|gif|webp|avif)$/i.test(name)\<close>. The search tries every start position;
  at a period the rest of the name must be one of the alternatives up to the end. With
  the \<open>i\<close> flag both sides are compared after Canonicalize, which maps a character to its
  upper case unless that would turn a non-ASCII character into an ASCII one; the pattern
  is ASCII, so only the ASCII letters matter.
\<close>

definition imageExtensions :: "jsstring list" where
  "imageExtensions = [js ''jpg'', js ''jpeg'', js ''png'', js ''gif'', js ''webp'', js ''avif'']"

definition canonicalize :: "nat \<Rightarrow> nat" where
  "canonicalize c = (if 97 \<le> c \<and> c \<le> 122 then c - 32 else c)"

fun imageRegexTest :: "jsstring \<Rightarrow> bool" where
  "imageRegexTest [] = False"
| "imageRegexTest (c # cs) =
     ((c = 46 \<and> map canonicalize cs \<in> set (map (map canonicalize) imageExtensions))
      \<or> imageRegexTest cs)"

text \<open>The JSON array that \<open>GET /images\<close> answers with (always with \<open>Cache-Control: no-store\<close>).\<close>

definition listImages :: "folder \<Rightarrow> jsstring list" where
  "listImages f =
     (if \<not> existsSync f then []
      else case readdir f of
        Inl err \<Rightarrow> []
      | Inr files \<Rightarrow> filter imageRegexTest (map dname (filter isFile files)))"

text \<open>ASCII lower case, for stating what the case-insensitive match accepts.\<close>

definition toLower :: "nat \<Rightarrow> nat" where
  "toLower c = (if 65 \<le> c \<and> c \<le> 90 then c + 32 else c)"

section \<open>The image proxy\<close>

text \<open>
  The outcome of the one outbound \<open>fetch\<close>: it rejects, or it resolves to a response with
  its \<open>ok\<close> flag, its status, its \<open>content-type\<close> header (\<open>null\<close> when absent) and the
  outcome of reading the body.
\<close>

record upstream =
  ok :: bool
  upstreamStatus :: nat
  contentType :: "jsstring option"
  arrayBuffer :: "error + nat list"

datatype body = Text string | Binary "nat list"

record reply =
  status :: nat
  contentTypeHeader :: "jsstring option"
  cacheControl :: "string option"
  sent :: body
  fetched :: "jsstring list"

text \<open>\<open>/^[\w-]{10,}$/.test(id)\<close>; \<open>\w\<close> is \<open>[A-Za-z0-9_]\<close>.\<close>

definition isWordChar :: "nat \<Rightarrow> bool" where
  "isWordChar c \<longleftrightarrow> (65 \<le> c \<and> c \<le> 90) \<or> (97 \<le> c \<and> c \<le> 122) \<or> (48 \<le> c \<and> c \<le> 57) \<or> c = 95"

definition idRegexTest :: "jsstring \<Rightarrow> bool" where
  "idRegexTest s \<longleftrightarrow> 10 \<le> length s \<and> list_all (\<lambda>c. isWordChar c \<or> c = 45) s"

text \<open>\<open>String(req.params.id || "").trim()\<close>; a missing parameter is \<open>undefined\<close>.\<close>

definition requestedId :: "jsstring option \<Rightarrow> jsstring" where
  "requestedId param = trim (case param of None \<Rightarrow> [] | Some p \<Rightarrow> p)"

text \<open>
  The handler of \<open>GET /img/:id\<close>, given the route parameter and the outcome the outbound
  fetch has when it is made. \<open>fetched\<close> lists the URLs requested from upstream; the two
  header fields are the headers the handler sets itself.
\<close>

definition imgHandler :: "error + upstream \<Rightarrow> jsstring option \<Rightarrow> reply" where
  "imgHandler outcome param =
     (let id = requestedId param in
      if \<not> idRegexTest id then
        \<lparr> status = 400, contentTypeHeader = None, cacheControl = None,
          sent = Text ''bad id'', fetched = [] \<rparr>
      else
        let url = js ''https://drive.google.com/uc?export=view&id='' @ id in
        (case outcome of
           Inl e \<Rightarrow>
             \<lparr> status = 500, contentTypeHeader = None, cacheControl = None,
               sent = Text ''proxy error'', fetched = [url] \<rparr>
         | Inr r \<Rightarrow>
             if \<not> ok r then
               \<lparr> status = 502, contentTypeHeader = None, cacheControl = None,
                 sent = Text ''upstream error'', fetched = [url] \<rparr>
             else
               let ct = (if truthy (contentType r) then the (contentType r) else js ''image/jpeg'') in
               (case arrayBuffer r of
                  Inl e \<Rightarrow>
                    \<lparr> status = 500, contentTypeHeader = Some ct,
                      cacheControl = Some ''public, max-age=86400'',
                      sent = Text ''proxy error'', fetched = [url] \<rparr>
                | Inr buf \<Rightarrow>
                    \<lparr> status = 200, contentTypeHeader = Some ct,
                      cacheControl = Some ''public, max-age=86400'',
                      sent = Binary buf, fetched = [url] \<rparr>)))"

section \<open>The folder watcher and the broadcast\<close>

text \<open>
  \<open>notifyClients\<close> makes one call \<open>io.emit("update")\<close>; \<open>emitted\<close> records the events
  handed to Socket.IO, \<open>consoleLog\<close> the lines printed. The listener given to \<open>fs.watch\<close>
  receives the event type and the file name, which is \<open>null\<close> when the platform does not
  report one.
\<close>

record channel =
  emitted :: "string list"
  consoleLog :: "jsstring list"

definition notifyClients :: "channel \<Rightarrow> channel" where
  "notifyClients ch = ch\<lparr> emitted := emitted ch @ [''update''] \<rparr>"

definition watchListener :: "jsstring \<Rightarrow> jsstring option \<Rightarrow> channel \<Rightarrow> channel" where
  "watchListener eventType filename ch =
     (if truthy filename
      then notifyClients
             (ch\<lparr> consoleLog := consoleLog ch @ [js ''[watch] '' @ eventType @ js '': '' @ the filename] \<rparr>)
      else ch)"

section \<open>Example inputs\<close>

definition latte :: product where
  "latte = \<lparr> image_p = js ''latte.png'', name = js ''Latte'', price = 11 / 2, description = js ''hot'' \<rparr>"

definition exampleRows :: "cell list list" where
  "exampleRows =
     [[Str (js ''latte.png''), Str (js '' Latte ''), Str (js '' $5,50 ''), Str (js ''hot'')],
      [Str (js ''  ''), Null, Num 3],
      []]"

definition offline :: environment where
  "offline = \<lparr> SHEET_ID = None, GOOGLE_SA_KEY_BASE64 = None, PRODUCTS_CACHE_TTL_MS = 60000,
               keyJson = Inl SyntaxError, authClient = Inl AuthError, valuesGet = Inl RequestError \<rparr>"

definition warmServer :: server where
  "warmServer = \<lparr> productsCache = \<lparr> data = Some [latte], ts = 1000 \<rparr>,
                  sheetCalls = 1, consoleErrors = [] \<rparr>"

text \<open>
  A folder holding \<open>a.png\<close>, \<open>b.txt\<close> and \<open>C.JPG\<close> whose enumeration yields the capitalised
  name first, as a byte-wise ordering of the names does.
\<close>

definition capitalFirstFolder :: folder where
  "capitalFirstFolder = \<lparr> existsSync = True,
       readdir = Inr [Dirent (js ''C.JPG'') True, Dirent (js ''a.png'') True, Dirent (js ''b.txt'') True] \<rparr>"

definition missingFolder :: folder where
  "missingFolder = \<lparr> existsSync = False, readdir = Inl (Error ''ENOENT'') \<rparr>"

definition pngUpstream :: upstream where
  "pngUpstream = \<lparr> ok = True, upstreamStatus = 200, contentType = Some (js ''image/png''),
                   arrayBuffer = Inr [137, 80, 78, 71] \<rparr>"

definition quietChannel :: channel where
  "quietChannel = \<lparr> emitted = [], consoleLog = [] \<rparr>"

section \<open>Facts about strings and price parsing\<close>

lemmas string_eval =
  js_def trim_def trimStart_def trimEnd_def isWhiteSpace_def

lemmas price_eval =
  string_eval cleaned_def stripNonPrice_def isPriceChar_def isDigit_def parseFloat_def
  unsignedValue_def fractionDigits_def digitsValue_def orZero_def parsePrice_def Let_def

lemma trimEnd_no_trailing:
  assumes "trimEnd s \<noteq> []"
  shows "\<not> isWhiteSpace (last (trimEnd s))"
proof -
  from assms have ne: "dropWhile isWhiteSpace (rev s) \<noteq> []"
    by (simp add: trimEnd_def)
  then have "\<not> isWhiteSpace (hd (dropWhile isWhiteSpace (rev s)))"
    by (rule hd_dropWhile)
  with ne show ?thesis
    by (simp add: trimEnd_def last_rev)
qed

lemma trimEnd_fixed:
  assumes "t \<noteq> [] \<Longrightarrow> \<not> isWhiteSpace (last t)"
  shows "trimEnd t = t"
proof (cases "t = []")
  case True
  then show ?thesis by (simp add: trimEnd_def)
next
  case False
  with assms have "\<not> isWhiteSpace (hd (rev t))"
    by (simp add: hd_rev)
  with False have "dropWhile isWhiteSpace (rev t) = rev t"
    by (cases "rev t") auto
  then show ?thesis by (simp add: trimEnd_def)
qed

lemma last_dropWhile:
  "dropWhile P xs \<noteq> [] \<Longrightarrow> last (dropWhile P xs) = last xs"
  by (induction xs) (auto split: if_splits)

lemma trim_idem: "trim (trim s) = trim s"
proof -
  let ?u = "trimEnd s"
  let ?t = "dropWhile isWhiteSpace ?u"
  have "\<not> isWhiteSpace (last ?t)" if "?t \<noteq> []"
  proof -
    from that have "?u \<noteq> []" by auto
    then have "\<not> isWhiteSpace (last ?u)" by (rule trimEnd_no_trailing)
    moreover from that have "last ?t = last ?u"
      by (rule last_dropWhile)
    ultimately show ?thesis by simp
  qed
  then have "trimEnd ?t = ?t" by (rule trimEnd_fixed)
  moreover have "dropWhile isWhiteSpace ?t = ?t"
    by (rule dropWhile_idem)
  ultimately show ?thesis
    by (simp add: trim_def trimStart_def)
qed

lemma filter_dropWhile_disjoint:
  "(\<And>c. Q c \<Longrightarrow> \<not> P c) \<Longrightarrow> filter P (dropWhile Q s) = filter P s"
  by (induction s) auto

lemma whitespace_not_price: "isWhiteSpace c \<Longrightarrow> \<not> isPriceChar c"
  by (auto simp: isWhiteSpace_def isPriceChar_def isDigit_def)

lemma strip_trim: "stripNonPrice (trim s) = stripNonPrice s"
proof -
  have "filter isPriceChar (trimEnd s) = filter isPriceChar s"
  proof -
    have "filter isPriceChar (rev (dropWhile isWhiteSpace (rev s)))
        = rev (filter isPriceChar (dropWhile isWhiteSpace (rev s)))"
      by (simp only: rev_filter)
    also have "\<dots> = rev (filter isPriceChar (rev s))"
      by (simp add: filter_dropWhile_disjoint whitespace_not_price)
    also have "\<dots> = filter isPriceChar s"
      by (simp add: rev_filter)
    finally show ?thesis by (simp add: trimEnd_def)
  qed
  then show ?thesis
    by (simp add: stripNonPrice_def trim_def trimStart_def filter_dropWhile_disjoint
        whitespace_not_price)
qed

lemma takeWhile_digit_stop:
  "\<not> isDigit p \<Longrightarrow> takeWhile isDigit (u @ p # v) = takeWhile isDigit u"
  by (induction u) auto

lemma dropWhile_digit_stop:
  "\<not> isDigit p \<Longrightarrow> dropWhile isDigit (u @ p # v) = dropWhile isDigit u @ p # v"
  by (induction u) auto

lemma period_not_digit: "\<not> isDigit 46"
  by (simp add: isDigit_def)

text \<open>
  Once a period has been read, the parser only looks at the digits that follow it: what
  comes after those digits, a comma or a second period, ends the literal either way.
\<close>

lemma unsignedValue_after_period:
  assumes "takeWhile isDigit b = takeWhile isDigit b'"
  shows "unsignedValue (u @ 46 # b) = unsignedValue (u @ 46 # b')"
proof (cases "dropWhile isDigit u")
  case Nil
  then show ?thesis using assms
    by (simp add: unsignedValue_def fractionDigits_def dropWhile_digit_stop
        takeWhile_digit_stop period_not_digit)
next
  case (Cons c w)
  then show ?thesis
    by (simp add: unsignedValue_def fractionDigits_def dropWhile_digit_stop
        takeWhile_digit_stop period_not_digit)
qed

lemma parseFloat_after_period:
  assumes "takeWhile isDigit b = takeWhile isDigit b'"
  shows "parseFloat (a @ 46 # b) = parseFloat (a @ 46 # b')"
proof (cases a)
  case Nil
  then show ?thesis
    using unsignedValue_after_period [OF assms, of "[]"] by (simp add: parseFloat_def)
next
  case (Cons c a')
  then show ?thesis
    using unsignedValue_after_period [OF assms, of a']
      unsignedValue_after_period [OF assms, of "c # a'"]
    by (simp add: parseFloat_def)
qed

lemma takeWhile_digit_commaToPeriod:
  "takeWhile isDigit (map commaToPeriod b) = takeWhile isDigit b"
  by (induction b) (auto simp: commaToPeriod_def isDigit_def)

lemma replaceFirstComma_none: "44 \<notin> set x \<Longrightarrow> replaceFirstComma x = x"
  by (induction x) auto

lemma replaceFirstComma_split:
  "44 \<notin> set a \<Longrightarrow> replaceFirstComma (a @ 44 # b) = a @ 46 # b"
  by (induction a) auto

lemma commaToPeriod_none: "44 \<notin> set x \<Longrightarrow> map commaToPeriod x = x"
  by (induction x) (auto simp: commaToPeriod_def)

lemma first_or_every_comma:
  "parseFloat (replaceFirstComma x) = parseFloat (map commaToPeriod x)"
proof (cases "44 \<in> set x")
  case False
  then show ?thesis by (simp add: replaceFirstComma_none commaToPeriod_none)
next
  case True
  then obtain a b where x: "x = a @ 44 # b" and a: "44 \<notin> set a"
    by (meson split_list_first)
  have "parseFloat (a @ 46 # b) = parseFloat (a @ 46 # map commaToPeriod b)"
    by (rule parseFloat_after_period) (simp add: takeWhile_digit_commaToPeriod)
  then show ?thesis
    using a by (simp add: x replaceFirstComma_split commaToPeriod_none commaToPeriod_def)
qed

lemma orZero_case: "orZero v = (case v of None \<Rightarrow> 0 | Some q \<Rightarrow> q)"
  by (simp add: orZero_def split: option.splits)

lemma parsePrice_spec: "parsePrice s = spec_price s"
  using strip_trim [of s]
  by (simp add: parsePrice_def cleaned_def first_or_every_comma spec_price_def orZero_case
      stripNonPrice_def)

section \<open>The product cache serves stale data when the fetch fails\<close>

text \<open>
  C1. Whenever the fetch \<open>getProducts\<close> would make fails, \<open>getProducts\<close> returns normally
  with the previously stored data, or with the empty sequence when nothing was stored
  yet, and leaves both the cached data and the cached timestamp as they were.
\<close>

theorem getProducts_fetch_failure:
  assumes "fetchProductsFromSheet numToString env = Inl e"
  shows "fst (getProducts numToString env now s)
           = Inr (case data (productsCache s) of None \<Rightarrow> [] | Some d \<Rightarrow> d)
       \<and> data (productsCache (snd (getProducts numToString env now s))) = data (productsCache s)
       \<and> ts (productsCache (snd (getProducts numToString env now s))) = ts (productsCache s)"
  using assms by (auto simp: getProducts_def Let_def)

text \<open>
  A cache filled at time 1000 and asked again at 70000, past the 60000 ms window, while
  the sheet is not configured: the stored product comes back.
\<close>

theorem getProducts_fetch_failure_witness:
  "\<forall>numToString.
     fst (getProducts numToString offline 70000 warmServer) = Inr [latte]
   \<and> data (productsCache (snd (getProducts numToString offline 70000 warmServer))) = Some [latte]
   \<and> ts (productsCache (snd (getProducts numToString offline 70000 warmServer))) = 1000"
proof
  fix numToString
  have down: "fetchProductsFromSheet numToString offline = Inl (Error ''Missing SHEET_ID'')"
    by (simp add: fetchProductsFromSheet_def offline_def truthy_def)
  show "fst (getProducts numToString offline 70000 warmServer) = Inr [latte]
   \<and> data (productsCache (snd (getProducts numToString offline 70000 warmServer))) = Some [latte]
   \<and> ts (productsCache (snd (getProducts numToString offline 70000 warmServer))) = 1000"
    using getProducts_fetch_failure [OF down, of 70000 warmServer]
    by (simp add: warmServer_def)
qed

section \<open>The product cache answers from memory within the freshness window\<close>

text \<open>
  C2. When a result is stored and \<open>now - ts < TTL\<close>, \<open>getProducts\<close> returns the stored
  sequence itself and changes nothing: the cache is as before and \<open>fetchProductsFromSheet\<close>
  has not been called.
\<close>

theorem getProducts_within_ttl:
  assumes "data (productsCache s) = Some d"
    and "now - ts (productsCache s) < PRODUCTS_CACHE_TTL_MS env"
  shows "fst (getProducts numToString env now s) = Inr d
       \<and> snd (getProducts numToString env now s) = s
       \<and> sheetCalls (snd (getProducts numToString env now s)) = sheetCalls s"
  using assms by (simp add: getProducts_def Let_def)

theorem getProducts_within_ttl_witness:
  "\<forall>numToString.
     fst (getProducts numToString offline 30000 warmServer) = Inr [latte]
   \<and> snd (getProducts numToString offline 30000 warmServer) = warmServer
   \<and> sheetCalls (snd (getProducts numToString offline 30000 warmServer)) = 1"
proof
  fix numToString
  have stored: "data (productsCache warmServer) = Some [latte]"
    by (simp add: warmServer_def)
  have fresh: "30000 - ts (productsCache warmServer) < PRODUCTS_CACHE_TTL_MS offline"
    by (simp add: warmServer_def offline_def)
  show "fst (getProducts numToString offline 30000 warmServer) = Inr [latte]
   \<and> snd (getProducts numToString offline 30000 warmServer) = warmServer
   \<and> sheetCalls (snd (getProducts numToString offline 30000 warmServer)) = 1"
    using getProducts_within_ttl [OF stored fresh, of numToString]
    by (simp add: warmServer_def)
qed

section \<open>Price cells\<close>

text \<open>
  C3. A numeric price cell is used as it is. A string price cell is stripped of every
  character that is not a digit, comma, period or minus sign, has comma replaced with
  period and is parsed as a float, with 0 for an unparsable string: the source's
  pipeline (which also trims, and replaces the first comma only) always yields the value
  of the rule as worded. The string \<open>" $5,50 "\<close> gives 5.50 and \<open>"abc"\<close> gives 0.
\<close>

theorem price_normalisation:
  "priceOf numToString (Num q) = q
   \<and> priceOf numToString (Str s) = spec_price s
   \<and> priceOf numToString (Str (js '' $5,50 '')) = 11 / 2
   \<and> priceOf numToString (Str (js ''abc'')) = 0"
proof -
  have "parsePrice (js '' $5,50 '') = 11 / 2"
    by (simp add: price_eval)
  moreover have "parsePrice (js ''abc'') = 0"
    by (simp add: price_eval)
  ultimately show ?thesis
    by (simp add: parsePrice_spec)
qed

section \<open>The folder watcher\<close>

text \<open>
  C4, as stated, fails: a notification that carries no file name produces no broadcast.
\<close>

theorem watch_without_filename_counterexample:
  "emitted (watchListener (js ''rename'') None quietChannel) = []"
  by (simp add: watchListener_def truthy_def quietChannel_def)

text \<open>
  C4, amended. A notification that carries a non-empty file name makes the listener call
  the broadcast exactly once, whatever the event type and the name; a notification
  without a file name makes no broadcast.
\<close>

theorem watchListener_broadcast:
  "emitted (watchListener eventType filename ch)
     = (if truthy filename then emitted ch @ [''update''] else emitted ch)"
  by (simp add: watchListener_def notifyClients_def)

theorem watchListener_broadcast_witness:
  "emitted (watchListener (js ''change'') (Some (js ''a.png'')) quietChannel) = [''update'']"
  using watchListener_broadcast [of "js ''change''" "Some (js ''a.png'')" quietChannel]
  by (simp add: truthy_def quietChannel_def js_def)

section \<open>Rows that are dropped\<close>

lemma rowToProduct_kept:
  "keepProduct (rowToProduct numToString r) \<longleftrightarrow> \<not> rowAllEmpty numToString r"
  by (auto simp: keepProduct_def rowToProduct_def rowAllEmpty_def)

lemma rowToProduct_trimmed:
  "trim (name (rowToProduct numToString r)) = name (rowToProduct numToString r)"
  "trim (image_p (rowToProduct numToString r)) = image_p (rowToProduct numToString r)"
  "trim (description (rowToProduct numToString r)) = description (rowToProduct numToString r)"
  by (simp_all add: rowToProduct_def trim_idem)

text \<open>
  C6. Every record of the result has a name, an image or a description that is not empty
  after trimming, and the result is the image of exactly the rows whose three text
  columns do not all normalise to the empty string, in their order: those rows are
  dropped and no others.
\<close>

theorem rows_dropped_iff_all_empty:
  "(\<forall>p \<in> set (rowsToProducts numToString rows).
      trim (name p) \<noteq> [] \<or> trim (image_p p) \<noteq> [] \<or> trim (description p) \<noteq> [])
   \<and> rowsToProducts numToString rows
       = map (rowToProduct numToString) (filter (\<lambda>r. \<not> rowAllEmpty numToString r) rows)"
proof
  show "\<forall>p \<in> set (rowsToProducts numToString rows).
      trim (name p) \<noteq> [] \<or> trim (image_p p) \<noteq> [] \<or> trim (description p) \<noteq> []"
  proof
    fix p
    assume "p \<in> set (rowsToProducts numToString rows)"
    then obtain r where p: "p = rowToProduct numToString r" and "keepProduct p"
      by (auto simp: rowsToProducts_def)
    then show "trim (name p) \<noteq> [] \<or> trim (image_p p) \<noteq> [] \<or> trim (description p) \<noteq> []"
      by (simp add: rowToProduct_trimmed) (simp add: keepProduct_def)
  qed
  show "rowsToProducts numToString rows
       = map (rowToProduct numToString) (filter (\<lambda>r. \<not> rowAllEmpty numToString r) rows)"
    by (simp add: rowsToProducts_def filter_map comp_def rowToProduct_kept)
qed

text \<open>
  Three rows: a full one, one whose image is blank and whose name is null, and an empty
  one. Only the first gives a record.
\<close>

theorem rows_dropped_iff_all_empty_witness:
  "\<forall>numToString. rowsToProducts numToString exampleRows = [latte]"
proof
  fix numToString
  have "rowsToProducts numToString exampleRows
       = map (rowToProduct numToString) (filter (\<lambda>r. \<not> rowAllEmpty numToString r) exampleRows)"
    using rows_dropped_iff_all_empty [of numToString exampleRows] by (rule conjunct2)
  also have "\<dots> = [latte]"
    by (simp add: exampleRows_def rowAllEmpty_def column_def rowToProduct_def latte_def price_eval)
  finally show "rowsToProducts numToString exampleRows = [latte]" .
qed

section \<open>The sign of a parsed price\<close>









section \<open>What the image listing returns\<close>

lemma canonicalize_eq_iff:
  "canonicalize c = canonicalize d \<longleftrightarrow> toLower c = toLower d"
  by (auto simp: canonicalize_def toLower_def split: if_splits)

lemma map_canonicalize_eq_iff:
  "map canonicalize x = map canonicalize y \<longleftrightarrow> map toLower x = map toLower y"
proof (induction x arbitrary: y)
  case Nil
  then show ?case by simp
next
  case (Cons c x)
  then show ?case
    by (cases y) (simp_all add: canonicalize_eq_iff)
qed

lemma extension_lower: "e \<in> set imageExtensions \<Longrightarrow> map toLower e = e"
  by (auto simp: imageExtensions_def js_def toLower_def)

lemma extension_member:
  "map canonicalize cs \<in> set (map (map canonicalize) imageExtensions)
     \<longleftrightarrow> map toLower cs \<in> set imageExtensions"
proof -
  have "map canonicalize cs \<in> set (map (map canonicalize) imageExtensions)
      \<longleftrightarrow> (\<exists>e \<in> set imageExtensions. map canonicalize cs = map canonicalize e)"
    by auto
  also have "\<dots> \<longleftrightarrow> (\<exists>e \<in> set imageExtensions. map toLower cs = map toLower e)"
    by (simp add: map_canonicalize_eq_iff)
  also have "\<dots> \<longleftrightarrow> (\<exists>e \<in> set imageExtensions. map toLower cs = e)"
    by (auto simp: extension_lower)
  finally show ?thesis by auto
qed

lemma imageRegexTest_iff:
  "imageRegexTest nm \<longleftrightarrow>
     (\<exists>stem ext. nm = stem @ 46 # ext \<and> map toLower ext \<in> set imageExtensions)"
proof (induction nm)
  case Nil
  then show ?case by simp
next
  case (Cons c cs)
  have "(\<exists>stem ext. c # cs = stem @ 46 # ext \<and> map toLower ext \<in> set imageExtensions)
      \<longleftrightarrow> (c = 46 \<and> map toLower cs \<in> set imageExtensions)
        \<or> (\<exists>stem ext. cs = stem @ 46 # ext \<and> map toLower ext \<in> set imageExtensions)"
    by (auto simp: Cons_eq_append_conv)
  with Cons show ?case
    by (simp only: imageRegexTest.simps extension_member)
qed

lemma example_names:
  "imageRegexTest (js ''a.png'')" "\<not> imageRegexTest (js ''b.txt'')" "imageRegexTest (js ''C.JPG'')"
  by (simp_all add: imageExtensions_def canonicalize_def js_def)

lemma example_listing:
  assumes "distinct files"
    and "set files = {Dirent (js ''a.png'') True, Dirent (js ''b.txt'') True, Dirent (js ''C.JPG'') True}"
  shows "set (filter imageRegexTest (map dname (filter isFile files))) = {js ''a.png'', js ''C.JPG''}"
    and "distinct (filter imageRegexTest (map dname (filter isFile files)))"
proof -
  show "set (filter imageRegexTest (map dname (filter isFile files))) = {js ''a.png'', js ''C.JPG''}"
    using assms(2) example_names by auto
  have "inj_on dname (set files)"
    by (simp add: assms(2) js_def)
  then have "inj_on dname (set (filter isFile files))"
    by (rule inj_on_subset) auto
  with assms(1) show "distinct (filter imageRegexTest (map dname (filter isFile files)))"
    by (simp add: distinct_map)
qed

text \<open>
  C8, as stated, fails in its example: the handler does not sort, so a folder holding
  \<open>a.png\<close>, \<open>b.txt\<close> and \<open>C.JPG\<close> whose enumeration yields \<open>C.JPG\<close> first is answered with
  \<open>C.JPG\<close>, \<open>a.png\<close> and not with \<open>a.png\<close>, \<open>C.JPG\<close>.
\<close>

theorem listImages_order_counterexample:
  "listImages capitalFirstFolder = [js ''C.JPG'', js ''a.png'']
   \<and> listImages capitalFirstFolder \<noteq> [js ''a.png'', js ''C.JPG'']"
  by (simp add: listImages_def capitalFirstFolder_def imageExtensions_def canonicalize_def js_def)

text \<open>
  C8, amended. For a folder that exists and can be read, the listing is the names of the
  entries that are regular files and whose name ends in a period followed by one of the
  allowed extensions in any letter case, in the order of enumeration; for a folder that
  does not exist it is empty. For a folder holding exactly the files \<open>a.png\<close>, \<open>b.txt\<close> and
  \<open>C.JPG\<close>, in whatever order they are enumerated, the listing holds \<open>a.png\<close> and \<open>C.JPG\<close>,
  each once, and nothing else.
\<close>

theorem listImages_allow_list:
  "(existsSync f \<and> readdir f = Inr files \<longrightarrow>
      listImages f =
        map dname (filter (\<lambda>e. isFile e \<and>
          (\<exists>stem ext. dname e = stem @ 46 # ext \<and> map toLower ext \<in> set imageExtensions)) files))
   \<and> (\<not> existsSync f \<longrightarrow> listImages f = [])
   \<and> (existsSync f \<and> readdir f = Inr files \<and> distinct files
        \<and> set files = {Dirent (js ''a.png'') True, Dirent (js ''b.txt'') True, Dirent (js ''C.JPG'') True}
      \<longrightarrow> set (listImages f) = {js ''a.png'', js ''C.JPG''} \<and> distinct (listImages f))"
proof -
  have "filter imageRegexTest (map dname (filter isFile files))
      = map dname (filter (\<lambda>e. isFile e \<and>
          (\<exists>stem ext. dname e = stem @ 46 # ext \<and> map toLower ext \<in> set imageExtensions)) files)"
    by (induction files) (simp_all add: imageRegexTest_iff)
  then have general: "existsSync f \<and> readdir f = Inr files \<longrightarrow>
      listImages f =
        map dname (filter (\<lambda>e. isFile e \<and>
          (\<exists>stem ext. dname e = stem @ 46 # ext \<and> map toLower ext \<in> set imageExtensions)) files)"
    by (simp add: listImages_def)
  have missing: "\<not> existsSync f \<longrightarrow> listImages f = []"
    by (simp add: listImages_def)
  have example: "existsSync f \<and> readdir f = Inr files \<and> distinct files
        \<and> set files = {Dirent (js ''a.png'') True, Dirent (js ''b.txt'') True, Dirent (js ''C.JPG'') True}
      \<longrightarrow> set (listImages f) = {js ''a.png'', js ''C.JPG''} \<and> distinct (listImages f)"
    using example_listing [of files] by (simp add: listImages_def)
  from general missing example show ?thesis
    by (intro conjI)
qed

text \<open>
  The folder that does not exist, and the three files enumerated with \<open>C.JPG\<close> first.
\<close>

theorem listImages_allow_list_witness:
  "listImages missingFolder = []
   \<and> set (listImages capitalFirstFolder) = {js ''a.png'', js ''C.JPG''}
   \<and> distinct (listImages capitalFirstFolder)
   \<and> listImages capitalFirstFolder =
        map dname (filter (\<lambda>e. isFile e \<and>
          (\<exists>stem ext. dname e = stem @ 46 # ext \<and> map toLower ext \<in> set imageExtensions))
          [Dirent (js ''C.JPG'') True, Dirent (js ''a.png'') True, Dirent (js ''b.txt'') True])"
proof -
  let ?files = "[Dirent (js ''C.JPG'') True, Dirent (js ''a.png'') True, Dirent (js ''b.txt'') True]"
  have there: "existsSync capitalFirstFolder \<and> readdir capitalFirstFolder = Inr ?files"
    by (simp add: capitalFirstFolder_def)
  have apart: "distinct ?files"
    by (simp add: js_def)
  have same: "set ?files
      = {Dirent (js ''a.png'') True, Dirent (js ''b.txt'') True, Dirent (js ''C.JPG'') True}"
    by auto
  have gone: "\<not> existsSync missingFolder"
    by (simp add: missingFolder_def)
  from gone listImages_allow_list [of missingFolder "[]"]
  have first: "listImages missingFolder = []"
    by blast
  from there apart same listImages_allow_list [of capitalFirstFolder ?files]
  have rest: "set (listImages capitalFirstFolder) = {js ''a.png'', js ''C.JPG''}
      \<and> distinct (listImages capitalFirstFolder)
      \<and> listImages capitalFirstFolder =
        map dname (filter (\<lambda>e. isFile e \<and>
          (\<exists>stem ext. dname e = stem @ 46 # ext \<and> map toLower ext \<in> set imageExtensions)) ?files)"
    by blast
  from first rest show ?thesis
    by (rule conjI)
qed

section \<open>What the image proxy answers\<close>

text \<open>
  C9, as stated, fails: the identifier is trimmed before it is tested, so the parameter
  \<open>"abcdefghij "\<close>, which does not match the pattern, is fetched from upstream and answered
  with 200.
\<close>

theorem padded_id_counterexample:
  "\<not> idRegexTest (js ''abcdefghij '')
   \<and> status (imgHandler (Inr pngUpstream) (Some (js ''abcdefghij ''))) = 200
   \<and> fetched (imgHandler (Inr pngUpstream) (Some (js ''abcdefghij '')))
       = [js ''https://drive.google.com/uc?export=view&id=abcdefghij'']"
  by (simp add: imgHandler_def requestedId_def idRegexTest_def isWordChar_def string_eval
      pngUpstream_def truthy_def Let_def)

text \<open>
  C9, amended. With the route parameter trimmed of surrounding white space: when the
  trimmed identifier does not match the pattern the answer is 400 and no request has gone
  upstream; when it matches and the one upstream response is not a success the answer is
  502; when it matches and the upstream response is a success whose body can be read, the
  answer is 200 with that body and with the upstream content type, or \<open>image/jpeg\<close> when
  the header is absent or empty.
\<close>

theorem imgHandler_outcomes:
  "(\<not> idRegexTest (requestedId param) \<longrightarrow>
      status (imgHandler outcome param) = 400 \<and> fetched (imgHandler outcome param) = [])
   \<and> (idRegexTest (requestedId param) \<and> outcome = Inr r \<and> \<not> ok r \<longrightarrow>
      status (imgHandler outcome param) = 502
      \<and> fetched (imgHandler outcome param)
          = [js ''https://drive.google.com/uc?export=view&id='' @ requestedId param])
   \<and> (idRegexTest (requestedId param) \<and> outcome = Inr r \<and> ok r \<and> arrayBuffer r = Inr buf \<longrightarrow>
      status (imgHandler outcome param) = 200
      \<and> sent (imgHandler outcome param) = Binary buf
      \<and> contentTypeHeader (imgHandler outcome param)
          = Some (case contentType r of None \<Rightarrow> js ''image/jpeg''
                  | Some ct \<Rightarrow> if ct = [] then js ''image/jpeg'' else ct)
      \<and> fetched (imgHandler outcome param)
          = [js ''https://drive.google.com/uc?export=view&id='' @ requestedId param])"
  by (auto simp: imgHandler_def requestedId_def Let_def truthy_def split: option.splits)

theorem imgHandler_outcomes_witness:
  "status (imgHandler (Inr pngUpstream) (Some (js ''bad id!''))) = 400
   \<and> fetched (imgHandler (Inr pngUpstream) (Some (js ''bad id!''))) = []
   \<and> status (imgHandler (Inr pngUpstream) (Some (js ''1AbC_def-ghi''))) = 200
   \<and> contentTypeHeader (imgHandler (Inr pngUpstream) (Some (js ''1AbC_def-ghi'')))
       = Some (js ''image/png'')"
proof -
  have bad: "\<not> idRegexTest (requestedId (Some (js ''bad id!'')))"
    by (simp add: requestedId_def idRegexTest_def string_eval)
  have good: "idRegexTest (requestedId (Some (js ''1AbC_def-ghi'')))"
    by (simp add: requestedId_def idRegexTest_def isWordChar_def string_eval)
  have up: "ok pngUpstream \<and> arrayBuffer pngUpstream = Inr [137, 80, 78, 71]
      \<and> contentType pngUpstream = Some (js ''image/png'')"
    by (simp add: pngUpstream_def)
  have "js ''image/png'' \<noteq> []"
    by (simp add: js_def)
  with bad good up
    imgHandler_outcomes [of "Some (js ''bad id!'')" "Inr pngUpstream"]
    imgHandler_outcomes [of "Some (js ''1AbC_def-ghi'')" "Inr pngUpstream" pngUpstream "[137, 80, 78, 71]"]
  show ?thesis
    by simp
qed

section \<open>Only the first comma of a price becomes a period\<close>

lemma replaceFirstComma_count:
  "count_list (replaceFirstComma x) 44 = count_list x 44 - 1"
  by (induction x) auto

text \<open>
  C10. When the stripped price string has a comma, the cleaned string handed to the parser
  is the same string with that first comma turned into a period; every later comma is
  still there, so the number of commas falls by one and not to zero. The string
  \<open>"1,234,56"\<close> becomes \<open>"1.234,56"\<close> and parses to 1.234.
\<close>

theorem only_first_comma_replaced:
  "(\<forall>a b. stripNonPrice (trim s) = a @ 44 # b \<and> 44 \<notin> set a \<longrightarrow> cleaned s = a @ 46 # b)
   \<and> count_list (cleaned s) 44 = count_list (stripNonPrice (trim s)) 44 - 1
   \<and> cleaned (js ''1,234,56'') = js ''1.234,56''
   \<and> parsePrice (js ''1,234,56'') = 1234 / 1000"
proof -
  have "cleaned (js ''1,234,56'') = js ''1.234,56''"
    by (simp add: price_eval)
  moreover have "parsePrice (js ''1,234,56'') = 1234 / 1000"
    by (simp add: price_eval)
  ultimately show ?thesis
    by (simp add: cleaned_def replaceFirstComma_split replaceFirstComma_count)
qed

theorem only_first_comma_replaced_witness:
  "cleaned (js ''1,234,56'') = js ''1'' @ 46 # js ''234,56''"
proof -
  have "stripNonPrice (trim (js ''1,234,56'')) = js ''1'' @ 44 # js ''234,56'' \<and> 44 \<notin> set (js ''1'')"
    by (simp add: string_eval stripNonPrice_def isPriceChar_def isDigit_def)
  with only_first_comma_replaced [of "js ''1,234,56''"] show ?thesis
    by blast
qed

end
